theory Spec2Isabelle
  imports Complex_Main "HOL-Library.Word"
begin

section \<open>Data model of \<^verbatim>\<open>vips.go\<close>\<close>

text \<open>
  Conventions of the embedding.
  \<^item> Go's \<^verbatim>\<open>int\<close> is modelled as \<^typ>\<open>int\<close>: every integer the pipeline computes with is
    an image dimension (a C \<^verbatim>\<open>int\<close> widened to 64 bits), a requested size, or a sum or
    difference of two of them, which stays far from \<open>2\<^sup>6\<^sup>3\<close> unless the request itself
    is that large.
  \<^item> Go's \<^verbatim>\<open>float64\<close> is modelled as \<^typ>\<open>real\<close>: \<^verbatim>\<open>/\<close>, \<^verbatim>\<open>math.Min\<close>, \<^verbatim>\<open>math.Max\<close> and
    \<^verbatim>\<open>math.Floor\<close> are the exact operations. In HOL \<open>x / 0 = 0\<close>, where the
    code would produce an infinity or a NaN; statements that depend on a quotient whose
    divisor can vanish carry the hypothesis that the decoded raster has positive size.
  \<^item> Go's integer \<^verbatim>\<open>/\<close> truncates towards zero; HOL's \<open>div\<close> rounds down, so the
    quotient is written out as \<open>quo\<close>.
  \<^item> The C functions of \<^verbatim>\<open>vips.h\<close> are the collaborators of the pipeline; they are the
    fields of the record \<open>engine\<close>, and every invocation is logged as a \<open>call\<close>.
\<close>

type_synonym byte = "8 word"

definition MARKER_JPEG :: "byte list" where
  "MARKER_JPEG = [0xff, 0xd8]"

definition MARKER_PNG :: "byte list" where
  "MARKER_PNG = [0x89, 0x50]"

datatype ImageType = UNKNOWN | JPEG | PNG

text \<open>\<^verbatim>\<open>type Interpolator int\<close> with its three named constants and the name table.\<close>

definition BICUBIC :: int where "BICUBIC = 0"
definition BILINEAR :: int where "BILINEAR = 1"
definition NOHALO :: int where "NOHALO = 2"

definition interpolations :: "int \<rightharpoonup> string" where
  "interpolations = [BICUBIC \<mapsto> ''bicubic'', BILINEAR \<mapsto> ''bilinear'', NOHALO \<mapsto> ''nohalo'']"

text \<open>\<^verbatim>\<open>func (i Interpolator) String()\<close>: a key missing from a Go map reads as the zero value.\<close>

definition String :: "int \<Rightarrow> string" where
  "String i = (case interpolations i of None \<Rightarrow> [] | Some s \<Rightarrow> s)"

text \<open>\<^verbatim>\<open>type Gravity int\<close>.\<close>

definition CENTRE :: int where "CENTRE = 0"
definition NORTH :: int where "NORTH = 1"
definition EAST :: int where "EAST = 2"
definition SOUTH :: int where "SOUTH = 3"
definition WEST :: int where "WEST = 4"

record Options =
  Height :: int
  Width :: int
  Crop :: bool
  Enlarge :: bool
  Extend :: int
  Interpolator :: int
  Gravity :: int
  Quality :: int

text \<open>What the pipeline reads of a \<^verbatim>\<open>VipsImage\<close>: its two dimensions.\<close>

record image =
  Xsize :: int
  Ysize :: int

text \<open>A Go \<^verbatim>\<open>error\<close>: the sentinel \<^verbatim>\<open>io.EOF\<close> or the value of \<^verbatim>\<open>errors.New\<close>.\<close>

datatype go_error = EOF | New string

section \<open>Integer quotient\<close>

definition quo :: "int \<Rightarrow> int \<Rightarrow> int" where
  "quo a b = sgn a * sgn b * (\<bar>a\<bar> div \<bar>b\<bar>)"

section \<open>Dimension planner (the \<^verbatim>\<open>switch\<close> on the requested width and height)\<close>

definition planFactor :: "int \<Rightarrow> int \<Rightarrow> Options \<Rightarrow> real \<times> Options" where
  "planFactor inWidth inHeight opts =
     (if Width opts > 0 \<and> Height opts > 0 then
        (let xf = real_of_int inWidth / real_of_int (Width opts);
             yf = real_of_int inHeight / real_of_int (Height opts)
         in if Crop opts then (min xf yf, opts) else (max xf yf, opts))
      else if Width opts > 0 then
        (let factor = real_of_int inWidth / real_of_int (Width opts)
         in (factor, opts\<lparr>Height := \<lfloor>real_of_int inHeight / factor\<rfloor>\<rparr>))
      else if Height opts > 0 then
        (let factor = real_of_int inWidth / real_of_int (Height opts)
         in (factor, opts\<lparr>Width := \<lfloor>real_of_int inWidth / factor\<rfloor>\<rparr>))
      else (1, opts\<lparr>Width := inWidth, Height := inHeight\<rparr>))"

section \<open>Integral shrink, residual, and the non-enlargement guard\<close>

text \<open>The numeric state that \<^verbatim>\<open>Resize\<close> threads through its stages, with \<^verbatim>\<open>o\<close>.\<close>

record plan =
  pl_factor :: real
  pl_shrink :: int
  pl_residual :: real
  pl_shrinkOnLoad :: int
  pl_opts :: Options

text \<open>\<^verbatim>\<open>shrink := int(math.Floor(factor))\<close>, clamped to 1 from below, and the first residual.\<close>

definition integralSplit :: "real \<Rightarrow> int \<times> real" where
  "integralSplit factor =
     (let shrink = \<lfloor>factor\<rfloor>;
          shrink = (if shrink < 1 then 1 else shrink);
          residual = real_of_int shrink / factor
      in (shrink, residual))"

text \<open>\<^verbatim>\<open>if !o.Enlarge { if inWidth < o.Width || inHeight < o.Height { ... } }\<close>\<close>

definition enlargeGuard :: "int \<Rightarrow> int \<Rightarrow> plan \<Rightarrow> plan" where
  "enlargeGuard inWidth inHeight p =
     (if \<not> Enlarge (pl_opts p) \<and>
         (inWidth < Width (pl_opts p) \<or> inHeight < Height (pl_opts p))
      then p\<lparr>pl_factor := 1, pl_shrink := 1, pl_residual := 0,
             pl_opts := (pl_opts p)\<lparr>Width := inWidth, Height := inHeight\<rparr>\<rparr>
      else p)"

text \<open>The state after the guard, where \<^verbatim>\<open>shrinkOnLoad := 1\<close>.\<close>

definition planGuarded :: "int \<Rightarrow> int \<Rightarrow> Options \<Rightarrow> plan" where
  "planGuarded inWidth inHeight opts =
     (case planFactor inWidth inHeight opts of (factor, opts) \<Rightarrow>
      case integralSplit factor of (shrink, residual) \<Rightarrow>
        enlargeGuard inWidth inHeight
          \<lparr>pl_factor = factor, pl_shrink = shrink, pl_residual = residual,
           pl_shrinkOnLoad = 1, pl_opts = opts\<rparr>)"

section \<open>Shrink-on-load\<close>

text \<open>The \<^verbatim>\<open>switch\<close> under \<^verbatim>\<open>if typ == JPEG\<close>.\<close>

definition chooseShrinkOnLoad :: "ImageType \<Rightarrow> plan \<Rightarrow> plan" where
  "chooseShrinkOnLoad typ p =
     (if typ = JPEG then
        (if pl_shrink p \<ge> 8 then p\<lparr>pl_factor := pl_factor p / 8, pl_shrinkOnLoad := 8\<rparr>
         else if pl_shrink p \<ge> 4 then p\<lparr>pl_factor := pl_factor p / 4, pl_shrinkOnLoad := 4\<rparr>
         else if pl_shrink p \<ge> 2 then p\<lparr>pl_factor := pl_factor p / 2, pl_shrinkOnLoad := 2\<rparr>
         else p)
      else p)"

text \<open>The three assignments under \<^verbatim>\<open>if shrinkOnLoad > 1\<close>.\<close>

definition recalculate :: "plan \<Rightarrow> plan" where
  "recalculate p =
     (let factor = max (pl_factor p) 1.0;
          shrink = \<lfloor>factor\<rfloor>;
          residual = real_of_int shrink / factor
      in p\<lparr>pl_factor := factor, pl_shrink := shrink, pl_residual := residual\<rparr>)"

text \<open>The state with which the decoder is called.\<close>

definition planScale :: "ImageType \<Rightarrow> int \<Rightarrow> int \<Rightarrow> Options \<Rightarrow> plan" where
  "planScale typ inWidth inHeight opts =
     (let p = chooseShrinkOnLoad typ (planGuarded inWidth inHeight opts)
      in if pl_shrinkOnLoad p > 1 then recalculate p else p)"

section \<open>The collaborators and the log of their invocations\<close>

text \<open>
  The functions of \<^verbatim>\<open>vips.h\<close> that \<^verbatim>\<open>Resize\<close> calls. A function whose status the code
  tests returns \<open>Inl s\<close> for a nonzero status, \<open>s\<close> being the content of
  \<^verbatim>\<open>vips_error_buffer()\<close>, and \<open>Inr\<close> of the image it wrote otherwise. A function whose
  status the code ignores returns the image only. An interpolator object is identified
  with the name \<^verbatim>\<open>vips_interpolate_new\<close> received.
\<close>

record engine =
  vips_image_new :: image
  vips_jpegload_buffer_rand :: "byte list \<Rightarrow> image"
  vips_pngload_buffer_rand :: "byte list \<Rightarrow> image"
  vips_jpegload_buffer_shrink :: "byte list \<Rightarrow> int \<Rightarrow> string + image"
  vips_copy_0 :: "image \<Rightarrow> image"
  vips_shrink_0 :: "image \<Rightarrow> real \<Rightarrow> real \<Rightarrow> string + image"
  vips_affine_interpolator ::
    "image \<Rightarrow> real \<Rightarrow> real \<Rightarrow> real \<Rightarrow> real \<Rightarrow> string \<Rightarrow> string + image"
  vips_extract_area_0 :: "image \<Rightarrow> int \<Rightarrow> int \<Rightarrow> int \<Rightarrow> int \<Rightarrow> string + image"
  vips_embed_extend :: "image \<Rightarrow> int \<Rightarrow> int \<Rightarrow> int \<Rightarrow> int \<Rightarrow> int \<Rightarrow> string + image"
  vips_colourspace_0 :: "image \<Rightarrow> image"
  vips_jpegsave_custom :: "image \<Rightarrow> int \<Rightarrow> byte list"

datatype call =
    JpegloadBufferRand "byte list"
  | PngloadBufferRand "byte list"
  | JpegloadBufferShrink "byte list" int
  | Copy0 image
  | Shrink0 image real real
  | AffineInterpolator image real real real real string
  | ExtractArea0 image int int int int
  | EmbedExtend image int int int int int
  | Colourspace0 image
  | JpegsaveCustom image int

text \<open>\<^verbatim>\<open>resizeError()\<close>: the engine's message as a Go error.\<close>

definition resizeError :: "string \<Rightarrow> go_error" where
  "resizeError s = New s"

text \<open>
  A stage yields the calls it made and either the error \<^verbatim>\<open>Resize\<close> returns or its value.
  \<open>andThen\<close> runs the next stage unless the previous one returned.
\<close>

type_synonym 'a staged = "call list \<times> (go_error + 'a)"

definition andThen :: "'a staged \<Rightarrow> ('a \<Rightarrow> 'b staged) \<Rightarrow> 'b staged" where
  "andThen m f =
     (case m of
        (cs, Inl er) \<Rightarrow> (cs, Inl er)
      | (cs, Inr x) \<Rightarrow> (case f x of (cs', r) \<Rightarrow> (cs @ cs', r)))"

section \<open>Stages of \<^verbatim>\<open>Resize\<close>\<close>

text \<open>Decoding: \<^verbatim>\<open>if shrinkOnLoad > 1 { ... } else { C.vips_copy_0(in, &shrunkOnLoad) }\<close>.\<close>

definition loadStage ::
  "engine \<Rightarrow> byte list \<Rightarrow> image \<Rightarrow> int \<Rightarrow> image staged" where
  "loadStage e buf inp shrinkOnLoad =
     (if shrinkOnLoad > 1 then
        (case vips_jpegload_buffer_shrink e buf shrinkOnLoad of
           Inl s \<Rightarrow> ([JpegloadBufferShrink buf shrinkOnLoad], Inl (resizeError s))
         | Inr shrunkOnLoad \<Rightarrow> ([JpegloadBufferShrink buf shrinkOnLoad], Inr shrunkOnLoad))
      else ([Copy0 inp], Inr (vips_copy_0 e inp)))"

text \<open>Integral shrink: \<^verbatim>\<open>if shrink > 1 { ... } else { C.vips_copy_0(shrunkOnLoad, &shrunk) }\<close>;
  yields the residual and the shrunk image.\<close>

definition shrinkStage ::
  "engine \<Rightarrow> image \<Rightarrow> int \<Rightarrow> real \<Rightarrow> Options \<Rightarrow> (real \<times> image) staged" where
  "shrinkStage e shrunkOnLoad shrink residual opts =
     (if shrink > 1 then
        (case vips_shrink_0 e shrunkOnLoad (real_of_int shrink) (real_of_int shrink) of
           Inl s \<Rightarrow>
             ([Shrink0 shrunkOnLoad (real_of_int shrink) (real_of_int shrink)],
              Inl (resizeError s))
         | Inr shrunk \<Rightarrow>
             (let shrunkWidth = Xsize shrunk;
                  shrunkHeight = Ysize shrunk;
                  residualx = real_of_int (Width opts) / real_of_int shrunkWidth;
                  residualy = real_of_int (Height opts) / real_of_int shrunkHeight;
                  residual = (if Crop opts then max residualx residualy
                              else min residualx residualy)
              in ([Shrink0 shrunkOnLoad (real_of_int shrink) (real_of_int shrink)],
                  Inr (residual, shrunk))))
      else ([Copy0 shrunkOnLoad], Inr (residual, vips_copy_0 e shrunkOnLoad)))"

text \<open>Residual affine: \<^verbatim>\<open>if residual != 0 { ... } else { C.vips_copy_0(shrunk, &affined) }\<close>.\<close>

definition affineStage :: "engine \<Rightarrow> image \<Rightarrow> real \<Rightarrow> Options \<Rightarrow> image staged" where
  "affineStage e shrunk residual opts =
     (if residual \<noteq> 0 then
        (let interpolator = String (Interpolator opts)
         in case vips_affine_interpolator e shrunk residual 0 0 residual interpolator of
              Inl s \<Rightarrow>
                ([AffineInterpolator shrunk residual 0 0 residual interpolator],
                 Inl (resizeError s))
            | Inr affined \<Rightarrow>
                ([AffineInterpolator shrunk residual 0 0 residual interpolator],
                 Inr affined))
      else ([Copy0 shrunk], Inr (vips_copy_0 e shrunk)))"

definition sharpCalcCrop :: "int \<Rightarrow> int \<Rightarrow> int \<Rightarrow> int \<Rightarrow> int \<Rightarrow> int \<times> int" where
  "sharpCalcCrop inWidth inHeight outWidth outHeight gravity =
     (if gravity = NORTH then (quo (inWidth - outWidth + 1) 2, 0)
      else if gravity = EAST then (inWidth - outWidth, quo (inHeight - outHeight + 1) 2)
      else if gravity = SOUTH then (quo (inWidth - outWidth + 1) 2, inHeight - outHeight)
      else if gravity = WEST then (0, quo (inHeight - outHeight + 1) 2)
      else (quo (inWidth - outWidth + 1) 2, quo (inHeight - outHeight + 1) 2))"

text \<open>Crop/embed: \<^verbatim>\<open>if affinedWidth != o.Width || affinedHeight != o.Height { ... } else
  { C.vips_copy_0(affined, &canvased) }\<close>; yields the options as updated and the image.\<close>

definition placementStage :: "engine \<Rightarrow> image \<Rightarrow> Options \<Rightarrow> (Options \<times> image) staged" where
  "placementStage e affined opts =
     (let affinedWidth = Xsize affined;
          affinedHeight = Ysize affined
      in if affinedWidth \<noteq> Width opts \<or> affinedHeight \<noteq> Height opts then
           (if Crop opts then
              (case sharpCalcCrop affinedWidth affinedHeight (Width opts) (Height opts)
                      (Gravity opts) of
                 (left, top0) \<Rightarrow>
                   (let opts = opts\<lparr>Width := min affinedWidth (Width opts)\<rparr>;
                        opts = opts\<lparr>Height := min affinedHeight (Height opts)\<rparr>
                    in case vips_extract_area_0 e affined left top0 (Width opts) (Height opts) of
                         Inl s \<Rightarrow>
                           ([ExtractArea0 affined left top0 (Width opts) (Height opts)],
                            Inl (resizeError s))
                       | Inr canvased \<Rightarrow>
                           ([ExtractArea0 affined left top0 (Width opts) (Height opts)],
                            Inr (opts, canvased))))
            else
              (let left = quo (Width opts - affinedWidth) 2;
                   top0 = quo (Height opts - affinedHeight) 2
               in case vips_embed_extend e affined left top0 (Width opts) (Height opts)
                         (Extend opts) of
                    Inl s \<Rightarrow>
                      ([EmbedExtend affined left top0 (Width opts) (Height opts) (Extend opts)],
                       Inl (resizeError s))
                  | Inr canvased \<Rightarrow>
                      ([EmbedExtend affined left top0 (Width opts) (Height opts) (Extend opts)],
                       Inr (opts, canvased))))
         else ([Copy0 affined], Inr (opts, vips_copy_0 e affined)))"

text \<open>Colour space and encoding; neither status is tested.\<close>

definition saveStage :: "engine \<Rightarrow> image \<Rightarrow> Options \<Rightarrow> (byte list) staged" where
  "saveStage e canvased opts =
     (let colourspaced = vips_colourspace_0 e canvased;
          output = colourspaced
      in ([Colourspace0 canvased, JpegsaveCustom output (Quality opts)],
          Inr (vips_jpegsave_custom e output (Quality opts))))"

section \<open>The input stream and the format detection\<close>

text \<open>
  The \<^verbatim>\<open>io.Reader\<close> is modelled as the bytes that remain of an in-memory stream, read
  as \<^verbatim>\<open>bytes.Reader\<close> does: \<^verbatim>\<open>Read(p)\<close> at the end of the stream returns \<^verbatim>\<open>0, io.EOF\<close>,
  and otherwise copies as many bytes as \<^verbatim>\<open>p\<close> holds or as remain and returns no
  error. Each function yields the bytes read, the error, and the stream that is left.
\<close>

definition Read :: "byte list \<Rightarrow> nat \<Rightarrow> byte list \<times> go_error option \<times> byte list" where
  "Read reader n =
     (if reader = [] \<and> n > 0 then ([], Some EOF, reader)
      else (take n reader, None, drop n reader))"

definition ReadAll :: "byte list \<Rightarrow> byte list \<times> go_error option \<times> byte list" where
  "ReadAll reader = (reader, None, [])"

text \<open>The \<^verbatim>\<open>switch\<close> on the two bytes of \<^verbatim>\<open>buf\<close>.\<close>

definition sniff :: "byte list \<Rightarrow> go_error + ImageType" where
  "sniff buf =
     (if buf ! 0 = MARKER_JPEG ! 0 \<and> buf ! 1 = MARKER_JPEG ! 1 then Inr JPEG
      else if buf ! 0 = MARKER_PNG ! 0 \<and> buf ! 1 = MARKER_PNG ! 1 then Inr PNG
      else Inl (New ''unknown image format''))"

section \<open>\<^verbatim>\<open>Resize\<close>\<close>

text \<open>
  The result is the stream left unread, the collaborator calls in the order they were
  made, and the error or the encoded bytes.
\<close>

definition Resize ::
  "engine \<Rightarrow> byte list \<Rightarrow> Options \<Rightarrow> byte list \<times> call list \<times> (go_error + byte list)" where
  "Resize e reader opts =
     (let buf = replicate 2 (0::byte)
      in case Read reader 2 of (chunk, err, reader) \<Rightarrow>
         (let buf = chunk @ drop (length chunk) buf
          in case err of
               Some er \<Rightarrow> (reader, [], Inl er)
             | None \<Rightarrow>
                 (case sniff buf of
                    Inl er \<Rightarrow> (reader, [], Inl er)
                  | Inr typ \<Rightarrow>
                      (case ReadAll reader of (rest, err, reader) \<Rightarrow>
                       (case err of
                          Some er \<Rightarrow> (reader, [], Inl er)
                        | None \<Rightarrow>
                           (let buf = buf @ rest;
                                opts = (if Quality opts = 0 then opts\<lparr>Quality := 100\<rparr>
                                        else opts);
                                loaded =
                                  (case typ of
                                     JPEG \<Rightarrow>
                                       ([JpegloadBufferRand buf],
                                        vips_jpegload_buffer_rand e buf)
                                   | PNG \<Rightarrow>
                                       ([PngloadBufferRand buf],
                                        vips_pngload_buffer_rand e buf)
                                   | UNKNOWN \<Rightarrow> ([], vips_image_new e));
                                inp = snd loaded;
                                inWidth = Xsize inp;
                                inHeight = Ysize inp;
                                p = planScale typ inWidth inHeight opts;
                                opts = pl_opts p
                            in case
                                 andThen (loadStage e buf inp (pl_shrinkOnLoad p))
                                   (\<lambda>shrunkOnLoad.
                                 andThen (shrinkStage e shrunkOnLoad (pl_shrink p)
                                            (pl_residual p) opts)
                                   (\<lambda>(residual, shrunk).
                                 andThen (affineStage e shrunk residual opts)
                                   (\<lambda>affined.
                                 andThen (placementStage e affined opts)
                                   (\<lambda>(opts, canvased).
                                 saveStage e canvased opts))))
                               of (cs, r) \<Rightarrow> (reader, fst loaded @ cs, r)))))))"

section \<open>A collaborator instance for concrete runs\<close>

text \<open>
  An engine that tracks raster sizes only, for running the pipeline on concrete inputs:
  both decoders yield a \<open>w \<times> h\<close> raster, shrinking divides the size and rounds down,
  the affine transform scales the size and rounds to the nearest integer, extraction
  fails unless the rectangle is non-empty and inside the raster, and copying and colour
  conversion keep the size.
\<close>

definition sizeEngine :: "int \<Rightarrow> int \<Rightarrow> engine" where
  "sizeEngine w h =
     \<lparr>vips_image_new = \<lparr>Xsize = 1, Ysize = 1\<rparr>,
      vips_jpegload_buffer_rand = (\<lambda>buf. \<lparr>Xsize = w, Ysize = h\<rparr>),
      vips_pngload_buffer_rand = (\<lambda>buf. \<lparr>Xsize = w, Ysize = h\<rparr>),
      vips_jpegload_buffer_shrink = (\<lambda>buf n. Inr \<lparr>Xsize = w div n, Ysize = h div n\<rparr>),
      vips_copy_0 = (\<lambda>im. im),
      vips_shrink_0 =
        (\<lambda>im xs ys. Inr \<lparr>Xsize = \<lfloor>real_of_int (Xsize im) / xs\<rfloor>,
                          Ysize = \<lfloor>real_of_int (Ysize im) / ys\<rfloor>\<rparr>),
      vips_affine_interpolator =
        (\<lambda>im a b c d interpolator.
           Inr \<lparr>Xsize = round (real_of_int (Xsize im) * a),
                Ysize = round (real_of_int (Ysize im) * d)\<rparr>),
      vips_extract_area_0 =
        (\<lambda>im left top0 width height.
           if 0 \<le> left \<and> 0 \<le> top0 \<and> 0 < width \<and> 0 < height \<and>
              left + width \<le> Xsize im \<and> top0 + height \<le> Ysize im
           then Inr \<lparr>Xsize = width, Ysize = height\<rparr>
           else Inl ''extract_area: bad extract area''),
      vips_embed_extend =
        (\<lambda>im left top0 width height extend. Inr \<lparr>Xsize = width, Ysize = height\<rparr>),
      vips_colourspace_0 = (\<lambda>im. im),
      vips_jpegsave_custom = (\<lambda>im quality. [0xff, 0xd8])\<rparr>"

section \<open>The crop rectangle\<close>

text \<open>
  The rectangle \<open>(left, top, width, height)\<close> that the crop branch of \<^verbatim>\<open>Resize\<close> passes to
  \<^verbatim>\<open>vips_extract_area_0\<close>: the offsets of \<^verbatim>\<open>sharpCalcCrop\<close>, computed from the requested
  size, and the requested size clamped to the affined size.
\<close>

definition cropWindow :: "int \<Rightarrow> int \<Rightarrow> int \<Rightarrow> int \<Rightarrow> int \<Rightarrow> int \<times> int \<times> int \<times> int" where
  "cropWindow affinedWidth affinedHeight outWidth outHeight gravity =
     (case sharpCalcCrop affinedWidth affinedHeight outWidth outHeight gravity of
        (left, top0) \<Rightarrow>
          (left, top0, min affinedWidth outWidth, min affinedHeight outHeight))"


text \<open>A request with the given size, crop and enlarge fields and defaults elsewhere.\<close>

definition request :: "int \<Rightarrow> int \<Rightarrow> bool \<Rightarrow> bool \<Rightarrow> Options" where
  "request w h crop enlarge =
     \<lparr>Height = h, Width = w, Crop = crop, Enlarge = enlarge, Extend = 0,
      Interpolator = BICUBIC, Gravity = CENTRE, Quality = 0\<rparr>"

section \<open>The dimension planner\<close>

text \<open>
  Claim C1. When both the requested width and the requested height are positive, the
  planner's factor is the smaller of the two axis ratios \<open>inWidth / Width\<close> and
  \<open>inHeight / Height\<close> in crop mode and the larger of them otherwise.
\<close>

theorem planner_both_fixed:
  assumes "0 < Width opts" and "0 < Height opts"
  shows "fst (planFactor inWidth inHeight opts) =
           (if Crop opts
            then min (real_of_int inWidth / real_of_int (Width opts))
                     (real_of_int inHeight / real_of_int (Height opts))
            else max (real_of_int inWidth / real_of_int (Width opts))
                     (real_of_int inHeight / real_of_int (Height opts)))"
  using assms by (simp add: planFactor_def Let_def)

theorem planner_both_fixed_witness:
  "0 < Width (request 400 300 True False) \<and> 0 < Height (request 400 300 True False) \<and>
   fst (planFactor 4000 2400 (request 400 300 True False)) = 8 \<and>
   fst (planFactor 4000 2400 (request 400 300 False False)) = 10"
  using planner_both_fixed [of "request 400 300 True False" 4000 2400]
        planner_both_fixed [of "request 400 300 False False" 4000 2400]
  by (simp add: request_def)



section \<open>The non-enlargement guard\<close>

lemma planFactor_opts:
  "snd (planFactor inWidth inHeight opts)\<lparr>Width := w, Height := h\<rparr> =
     opts\<lparr>Width := w, Height := h\<rparr>"
  by (simp add: planFactor_def Let_def)

lemma planFactor_Enlarge:
  "Enlarge (snd (planFactor inWidth inHeight opts)) = Enlarge opts"
  by (simp add: planFactor_def Let_def)

text \<open>
  Claim C2. When enlargement is not allowed and the planned output is wider or taller
  than the input, the plan with which the decoder is reached is the identity: factor 1,
  integral shrink 1, residual 0, no shrink-on-load, and the output size is the input
  size, whatever width and height were requested and whatever the input format. The
  decoded raster has positive size.
\<close>

theorem guard_identity_plan:
  assumes "0 < inWidth" and "0 < inHeight"
    and "\<not> Enlarge opts"
    and "inWidth < Width (snd (planFactor inWidth inHeight opts)) \<or>
         inHeight < Height (snd (planFactor inWidth inHeight opts))"
  shows "planScale ty inWidth inHeight opts =
           \<lparr>pl_factor = 1, pl_shrink = 1, pl_residual = 0, pl_shrinkOnLoad = 1,
            pl_opts = opts\<lparr>Width := inWidth, Height := inHeight\<rparr>\<rparr>"
proof -
  obtain factor o1 where pf: "planFactor inWidth inHeight opts = (factor, o1)"
    by (cases "planFactor inWidth inHeight opts")
  have en: "Enlarge o1 = Enlarge opts"
    using planFactor_Enlarge [of inWidth inHeight opts] pf by simp
  have upd: "o1\<lparr>Width := inWidth, Height := inHeight\<rparr> =
             opts\<lparr>Width := inWidth, Height := inHeight\<rparr>"
    using planFactor_opts [where w = inWidth and h = inHeight and opts = opts
        and inWidth = inWidth and inHeight = inHeight] pf
    by simp
  have g: "planGuarded inWidth inHeight opts =
           \<lparr>pl_factor = 1, pl_shrink = 1, pl_residual = 0, pl_shrinkOnLoad = 1,
            pl_opts = opts\<lparr>Width := inWidth, Height := inHeight\<rparr>\<rparr>"
    using assms(3,4) pf en upd
    by (simp add: planGuarded_def enlargeGuard_def split: prod.splits)
  show ?thesis
    by (simp add: planScale_def g chooseShrinkOnLoad_def Let_def)
qed

theorem guard_identity_plan_witness:
  "\<not> Enlarge (request 400 400 False False) \<and>
   (100 < Width (snd (planFactor 100 100 (request 400 400 False False))) \<or>
    100 < Height (snd (planFactor 100 100 (request 400 400 False False)))) \<and>
   planScale PNG 100 100 (request 400 400 False False) =
     \<lparr>pl_factor = 1, pl_shrink = 1, pl_residual = 0, pl_shrinkOnLoad = 1,
      pl_opts = request 100 100 False False\<rparr>"
  using guard_identity_plan [where opts = "request 400 400 False False" and inWidth = 100
      and inHeight = 100 and ty = PNG]
  by (simp add: request_def planFactor_def)

section \<open>The shrink strategy\<close>

lemma planGuarded_shrink:
  "pl_shrink (planGuarded inWidth inHeight opts) =
     max 1 \<lfloor>pl_factor (planGuarded inWidth inHeight opts)\<rfloor>"
  by (simp add: planGuarded_def enlargeGuard_def integralSplit_def Let_def split: prod.splits)

lemma planGuarded_shrinkOnLoad:
  "pl_shrinkOnLoad (planGuarded inWidth inHeight opts) = 1"
  by (simp add: planGuarded_def enlargeGuard_def split: prod.splits)

text \<open>
  Claim C4. Let \<open>factor\<close> be the factor after the non-enlargement guard. For JPEG
  input with \<open>2 \<le> factor\<close>, the shrink-on-load divisor is the greatest of 8, 4 and 2
  that is at most \<open>\<lfloor>factor\<rfloor>\<close>, and the factor is divided by it. For any other format,
  or when \<open>factor < 2\<close>, the divisor is 1 and the factor is unchanged by the choice.
  The decoded raster has positive size.
\<close>

theorem shrink_on_load_choice:
  assumes "0 < inWidth" and "0 < inHeight"
  shows "(ty = JPEG \<and> 2 \<le> pl_factor (planGuarded inWidth inHeight opts) \<longrightarrow>
      pl_shrinkOnLoad (chooseShrinkOnLoad ty (planGuarded inWidth inHeight opts))
        \<in> {8, 4, 2} \<and>
      pl_shrinkOnLoad (chooseShrinkOnLoad ty (planGuarded inWidth inHeight opts))
        \<le> \<lfloor>pl_factor (planGuarded inWidth inHeight opts)\<rfloor> \<and>
      (\<forall>d \<in> {8, 4, 2}. d \<le> \<lfloor>pl_factor (planGuarded inWidth inHeight opts)\<rfloor> \<longrightarrow>
         d \<le> pl_shrinkOnLoad (chooseShrinkOnLoad ty (planGuarded inWidth inHeight opts))) \<and>
      pl_factor (chooseShrinkOnLoad ty (planGuarded inWidth inHeight opts)) =
        pl_factor (planGuarded inWidth inHeight opts) /
        real_of_int
          (pl_shrinkOnLoad (chooseShrinkOnLoad ty (planGuarded inWidth inHeight opts)))) \<and>
   (ty \<noteq> JPEG \<or> pl_factor (planGuarded inWidth inHeight opts) < 2 \<longrightarrow>
      pl_shrinkOnLoad (chooseShrinkOnLoad ty (planGuarded inWidth inHeight opts)) = 1 \<and>
      pl_factor (chooseShrinkOnLoad ty (planGuarded inWidth inHeight opts)) =
        pl_factor (planGuarded inWidth inHeight opts))"
proof -
  define p where "p = planGuarded inWidth inHeight opts"
  define k where "k = \<lfloor>pl_factor p\<rfloor>"
  have sh: "pl_shrink p = max 1 k"
    unfolding p_def k_def by (rule planGuarded_shrink)
  have sol: "pl_shrinkOnLoad p = 1"
    unfolding p_def by (rule planGuarded_shrinkOnLoad)
  have k2: "2 \<le> pl_factor p \<longleftrightarrow> 2 \<le> k"
    unfolding k_def by (simp add: le_floor_iff)
  have k2': "pl_factor p < 2 \<longleftrightarrow> k < 2"
    using k2 by linarith
  have jpeg: "ty = JPEG \<Longrightarrow> 2 \<le> k \<Longrightarrow>
      pl_shrinkOnLoad (chooseShrinkOnLoad ty p) \<in> {8, 4, 2} \<and>
      pl_shrinkOnLoad (chooseShrinkOnLoad ty p) \<le> k \<and>
      (\<forall>d \<in> {8, 4, 2}. d \<le> k \<longrightarrow> d \<le> pl_shrinkOnLoad (chooseShrinkOnLoad ty p)) \<and>
      pl_factor (chooseShrinkOnLoad ty p) =
        pl_factor p / real_of_int (pl_shrinkOnLoad (chooseShrinkOnLoad ty p))"
    using sh by (simp add: chooseShrinkOnLoad_def)
  have other: "ty \<noteq> JPEG \<or> k < 2 \<Longrightarrow>
      pl_shrinkOnLoad (chooseShrinkOnLoad ty p) = 1 \<and>
      pl_factor (chooseShrinkOnLoad ty p) = pl_factor p"
    using sh sol by (auto simp: chooseShrinkOnLoad_def)
  show ?thesis
    unfolding p_def [symmetric] k_def [symmetric] k2 k2'
    using jpeg other by blast
qed

theorem shrink_on_load_choice_witness:
  "pl_factor (planGuarded 4000 3000 (request 400 300 True False)) = 10 \<and>
   pl_shrinkOnLoad
     (chooseShrinkOnLoad JPEG (planGuarded 4000 3000 (request 400 300 True False))) = 8 \<and>
   pl_factor
     (chooseShrinkOnLoad JPEG (planGuarded 4000 3000 (request 400 300 True False))) = 5 / 4 \<and>
   pl_shrinkOnLoad
     (chooseShrinkOnLoad PNG (planGuarded 4000 3000 (request 400 300 True False))) = 1 \<and>
   pl_factor
     (chooseShrinkOnLoad PNG (planGuarded 4000 3000 (request 400 300 True False))) = 10"
proof -
  have f: "pl_factor (planGuarded 4000 3000 (request 400 300 True False)) = 10"
    by (simp add: planGuarded_def planFactor_def integralSplit_def enlargeGuard_def
        request_def Let_def)
  show ?thesis
    using shrink_on_load_choice [where ty = JPEG and inWidth = 4000 and inHeight = 3000
            and opts = "request 400 300 True False"]
          shrink_on_load_choice [where ty = PNG and inWidth = 4000 and inHeight = 3000
            and opts = "request 400 300 True False"]
    by (auto simp add: f)
qed

lemma chooseShrinkOnLoad_none:
  assumes "pl_shrinkOnLoad p = 1" and "pl_shrinkOnLoad (chooseShrinkOnLoad typ p) \<le> 1"
  shows "chooseShrinkOnLoad typ p = p"
  using assms by (simp add: chooseShrinkOnLoad_def split: if_splits)

lemma planGuarded_unguarded:
  assumes "Enlarge opts \<or>
           \<not> (inWidth < Width (snd (planFactor inWidth inHeight opts)) \<or>
              inHeight < Height (snd (planFactor inWidth inHeight opts)))"
  shows "planGuarded inWidth inHeight opts =
           \<lparr>pl_factor = fst (planFactor inWidth inHeight opts),
            pl_shrink = max 1 \<lfloor>fst (planFactor inWidth inHeight opts)\<rfloor>,
            pl_residual = real_of_int (max 1 \<lfloor>fst (planFactor inWidth inHeight opts)\<rfloor>) /
                          fst (planFactor inWidth inHeight opts),
            pl_shrinkOnLoad = 1,
            pl_opts = snd (planFactor inWidth inHeight opts)\<rparr>"
  using assms planFactor_Enlarge [of inWidth inHeight opts]
  by (auto simp: planGuarded_def enlargeGuard_def integralSplit_def Let_def max_def
      split: prod.splits)

text \<open>
  Claim C5, as amended. The recalculation is tied to the choice of a divisor. When a
  shrink-on-load divisor was chosen, the factor is clamped to at least 1, the integral
  shrink is its floor and the residual is that floor over the factor. When none was
  chosen nothing is recalculated: the plan is the one the initial split and the
  non-enlargement guard left, and it satisfies the same three equations if the guard did
  not fire and the factor is at least 1. The decoded raster has positive size.
\<close>

theorem recalculation_after_choice:
  assumes "0 < inWidth" and "0 < inHeight"
  shows "(1 < pl_shrinkOnLoad (chooseShrinkOnLoad ty (planGuarded inWidth inHeight opts)) \<longrightarrow>
      pl_factor (planScale ty inWidth inHeight opts) =
        max (pl_factor (chooseShrinkOnLoad ty (planGuarded inWidth inHeight opts))) 1 \<and>
      pl_shrink (planScale ty inWidth inHeight opts) =
        \<lfloor>pl_factor (planScale ty inWidth inHeight opts)\<rfloor> \<and>
      pl_residual (planScale ty inWidth inHeight opts) =
        real_of_int (pl_shrink (planScale ty inWidth inHeight opts)) /
        pl_factor (planScale ty inWidth inHeight opts)) \<and>
   (pl_shrinkOnLoad (chooseShrinkOnLoad ty (planGuarded inWidth inHeight opts)) \<le> 1 \<longrightarrow>
      planScale ty inWidth inHeight opts = planGuarded inWidth inHeight opts) \<and>
   (pl_shrinkOnLoad (chooseShrinkOnLoad ty (planGuarded inWidth inHeight opts)) \<le> 1 \<and>
    (Enlarge opts \<or>
     \<not> (inWidth < Width (snd (planFactor inWidth inHeight opts)) \<or>
        inHeight < Height (snd (planFactor inWidth inHeight opts)))) \<and>
    1 \<le> pl_factor (chooseShrinkOnLoad ty (planGuarded inWidth inHeight opts)) \<longrightarrow>
      pl_factor (planScale ty inWidth inHeight opts) =
        max (pl_factor (chooseShrinkOnLoad ty (planGuarded inWidth inHeight opts))) 1 \<and>
      pl_shrink (planScale ty inWidth inHeight opts) =
        \<lfloor>pl_factor (planScale ty inWidth inHeight opts)\<rfloor> \<and>
      pl_residual (planScale ty inWidth inHeight opts) =
        real_of_int (pl_shrink (planScale ty inWidth inHeight opts)) /
        pl_factor (planScale ty inWidth inHeight opts))"
proof -
  define g where "g = planGuarded inWidth inHeight opts"
  define p where "p = chooseShrinkOnLoad ty g"
  define r where "r = planScale ty inWidth inHeight opts"
  have r: "r = (if 1 < pl_shrinkOnLoad p then recalculate p else p)"
    unfolding r_def p_def g_def by (simp add: planScale_def Let_def)
  have chosen: "1 < pl_shrinkOnLoad p \<Longrightarrow>
      pl_factor r = max (pl_factor p) 1 \<and> pl_shrink r = \<lfloor>pl_factor r\<rfloor> \<and>
      pl_residual r = real_of_int (pl_shrink r) / pl_factor r"
    by (simp add: r recalculate_def Let_def)
  have none: "r = g" if "pl_shrinkOnLoad p \<le> 1"
  proof -
    have "p = g"
      using that planGuarded_shrinkOnLoad [of inWidth inHeight opts]
        chooseShrinkOnLoad_none [of g ty]
      unfolding p_def g_def by simp
    with that show ?thesis by (simp add: r)
  qed
  have agree: "pl_factor r = max (pl_factor p) 1 \<and> pl_shrink r = \<lfloor>pl_factor r\<rfloor> \<and>
      pl_residual r = real_of_int (pl_shrink r) / pl_factor r"
    if n: "pl_shrinkOnLoad p \<le> 1"
      and u: "Enlarge opts \<or>
              \<not> (inWidth < Width (snd (planFactor inWidth inHeight opts)) \<or>
                 inHeight < Height (snd (planFactor inWidth inHeight opts)))"
      and f: "1 \<le> pl_factor p"
  proof -
    have rg: "r = g" using n by (rule none)
    have pg: "p = g"
      using n planGuarded_shrinkOnLoad [of inWidth inHeight opts]
        chooseShrinkOnLoad_none [of g ty]
      unfolding p_def g_def by simp
    have gv: "pl_shrink g = max 1 \<lfloor>pl_factor g\<rfloor> \<and>
              pl_residual g = real_of_int (max 1 \<lfloor>pl_factor g\<rfloor>) / pl_factor g"
      unfolding g_def using planGuarded_unguarded [OF u] by simp
    have "1 \<le> \<lfloor>pl_factor g\<rfloor>" using f pg by (simp add: le_floor_iff)
    then show ?thesis using gv f rg pg by (simp add: max_def)
  qed
  show ?thesis
    unfolding r_def [symmetric] g_def [symmetric] p_def [symmetric]
    using chosen none agree by blast
qed

lemma planGuarded_enlarging:
  "planGuarded 100 100 (request 200 200 False True) =
     \<lparr>pl_factor = 1 / 2, pl_shrink = 1, pl_residual = 2, pl_shrinkOnLoad = 1,
      pl_opts = request 200 200 False True\<rparr>"
  by (simp add: planGuarded_def planFactor_def integralSplit_def enlargeGuard_def
      request_def Let_def)

lemma planScale_enlarging:
  "planScale PNG 100 100 (request 200 200 False True) =
     \<lparr>pl_factor = 1 / 2, pl_shrink = 1, pl_residual = 2, pl_shrinkOnLoad = 1,
      pl_opts = request 200 200 False True\<rparr>"
  by (simp add: planScale_def planGuarded_enlarging chooseShrinkOnLoad_def Let_def)

lemma planGuarded_shrinking:
  "planGuarded 4000 3000 (request 400 300 True False) =
     \<lparr>pl_factor = 10, pl_shrink = 10, pl_residual = 1, pl_shrinkOnLoad = 1,
      pl_opts = request 400 300 True False\<rparr>"
  by (simp add: planGuarded_def planFactor_def integralSplit_def enlargeGuard_def
      request_def Let_def)

theorem recalculation_after_choice_witness:
  "1 < pl_shrinkOnLoad
         (chooseShrinkOnLoad JPEG (planGuarded 4000 3000 (request 400 300 True False))) \<and>
   pl_factor (planScale JPEG 4000 3000 (request 400 300 True False)) = 5 / 4 \<and>
   pl_shrink (planScale JPEG 4000 3000 (request 400 300 True False)) = 1 \<and>
   pl_residual (planScale JPEG 4000 3000 (request 400 300 True False)) = 4 / 5 \<and>
   pl_shrinkOnLoad
     (chooseShrinkOnLoad PNG (planGuarded 100 100 (request 200 200 False True))) \<le> 1 \<and>
   planScale PNG 100 100 (request 200 200 False True) =
     planGuarded 100 100 (request 200 200 False True) \<and>
   pl_shrinkOnLoad
     (chooseShrinkOnLoad PNG (planGuarded 4000 3000 (request 400 300 True False))) \<le> 1 \<and>
   \<not> (4000 < Width (snd (planFactor 4000 3000 (request 400 300 True False))) \<or>
      3000 < Height (snd (planFactor 4000 3000 (request 400 300 True False)))) \<and>
   1 \<le> pl_factor
         (chooseShrinkOnLoad PNG (planGuarded 4000 3000 (request 400 300 True False))) \<and>
   pl_shrink (planScale PNG 4000 3000 (request 400 300 True False)) = 10 \<and>
   pl_residual (planScale PNG 4000 3000 (request 400 300 True False)) = 1"
proof -
  let ?j = "chooseShrinkOnLoad JPEG (planGuarded 4000 3000 (request 400 300 True False))"
  let ?rj = "planScale JPEG 4000 3000 (request 400 300 True False)"
  let ?e = "chooseShrinkOnLoad PNG (planGuarded 100 100 (request 200 200 False True))"
  let ?p = "chooseShrinkOnLoad PNG (planGuarded 4000 3000 (request 400 300 True False))"
  let ?rp = "planScale PNG 4000 3000 (request 400 300 True False)"
  have pos: "(0::int) < 4000" "(0::int) < 3000" "(0::int) < 100"
    by simp_all
  have j: "pl_shrinkOnLoad ?j = 8" "pl_factor ?j = 5 / 4"
    by (simp_all add: planGuarded_shrinking chooseShrinkOnLoad_def)
  have e: "pl_shrinkOnLoad ?e = 1"
    by (simp add: planGuarded_enlarging chooseShrinkOnLoad_def)
  have p: "pl_shrinkOnLoad ?p = 1" "pl_factor ?p = 10"
    by (simp_all add: planGuarded_shrinking chooseShrinkOnLoad_def)
  have u: "\<not> (4000 < Width (snd (planFactor 4000 3000 (request 400 300 True False))) \<or>
      3000 < Height (snd (planFactor 4000 3000 (request 400 300 True False))))"
    by (simp add: planFactor_def request_def Let_def)
  have j1: "1 < pl_shrinkOnLoad ?j" by (simp add: j)
  have e1: "pl_shrinkOnLoad ?e \<le> 1" by (simp add: e)
  have p1: "pl_shrinkOnLoad ?p \<le> 1" by (simp add: p)
  have p2: "1 \<le> pl_factor ?p" by (simp add: p)
  have fj: "pl_factor ?rj = max (pl_factor ?j) 1"
    and sj: "pl_shrink ?rj = \<lfloor>pl_factor ?rj\<rfloor>"
    and rj: "pl_residual ?rj = real_of_int (pl_shrink ?rj) / pl_factor ?rj"
    using recalculation_after_choice [where ty = JPEG and inWidth = 4000 and inHeight = 3000
        and opts = "request 400 300 True False", OF pos(1) pos(2)] j1
    by blast+
  have fj': "pl_factor ?rj = 5 / 4" using fj j(2) by simp
  have sj': "pl_shrink ?rj = 1" using sj fj' by simp
  have rj': "pl_residual ?rj = 4 / 5" using rj sj' fj' by simp
  have enl: "planScale PNG 100 100 (request 200 200 False True) =
     planGuarded 100 100 (request 200 200 False True)"
    using recalculation_after_choice [where ty = PNG and inWidth = 100 and inHeight = 100
        and opts = "request 200 200 False True", OF pos(3) pos(3)] e1
    by blast
  have fp: "pl_factor ?rp = max (pl_factor ?p) 1"
    and sp: "pl_shrink ?rp = \<lfloor>pl_factor ?rp\<rfloor>"
    and rp: "pl_residual ?rp = real_of_int (pl_shrink ?rp) / pl_factor ?rp"
    using recalculation_after_choice [where ty = PNG and inWidth = 4000 and inHeight = 3000
        and opts = "request 400 300 True False", OF pos(1) pos(2)] p1 p2 u
    by blast+
  have fp': "pl_factor ?rp = 10" using fp p(2) by simp
  have sp': "pl_shrink ?rp = 10" using sp fp' by simp
  have rp': "pl_residual ?rp = 1" using rp sp' fp' by simp
  show ?thesis
    using j1 e1 p1 p2 u fj' sj' rj' enl sp' rp' by blast
qed

text \<open>
  Claim C5 as stated fails when no divisor is chosen and the request enlarges: for a
  \<open>100 \<times> 100\<close> PNG and a \<open>200 \<times> 200\<close> request with enlargement allowed the factor stays
  \<open>1 / 2\<close> and the residual is 2, where the clamped formulas give 1 and 1.
\<close>

theorem recalculation_whether_or_not_chosen_counterexample:
  "\<not> (pl_factor (planScale PNG 100 100 (request 200 200 False True)) =
        max (pl_factor (chooseShrinkOnLoad PNG
               (planGuarded 100 100 (request 200 200 False True)))) 1 \<and>
      pl_shrink (planScale PNG 100 100 (request 200 200 False True)) =
        \<lfloor>pl_factor (planScale PNG 100 100 (request 200 200 False True))\<rfloor> \<and>
      pl_residual (planScale PNG 100 100 (request 200 200 False True)) =
        real_of_int (pl_shrink (planScale PNG 100 100 (request 200 200 False True))) /
        pl_factor (planScale PNG 100 100 (request 200 200 False True)))"
  by (simp add: planScale_enlarging planGuarded_enlarging chooseShrinkOnLoad_def)


section \<open>The residual affine stage\<close>

lemma andThen_Inl: "andThen (cs, Inl er) k = (cs, Inl er)"
  by (simp add: andThen_def)

text \<open>
  Claim C6. With residual 0 the affine stage makes one call, the identity copy, and so
  does not invoke the resampler. With a residual other than 0 it makes one call, the
  resampler with the matrix \<open>(residual, 0, 0, residual)\<close> and the interpolator named by the
  request; the image the resampler wrote is the stage's value, and a nonzero status ends
  \<^verbatim>\<open>Resize\<close> there with the engine's message as the error, whatever stage \<open>k\<close> would follow.
\<close>

theorem affine_stage:
  "(residual = 0 \<longrightarrow>
      affineStage e shrunk residual opts = ([Copy0 shrunk], Inr (vips_copy_0 e shrunk))) \<and>
   (residual \<noteq> 0 \<longrightarrow>
      fst (affineStage e shrunk residual opts) =
        [AffineInterpolator shrunk residual 0 0 residual (String (Interpolator opts))] \<and>
      (\<forall>affined.
         vips_affine_interpolator e shrunk residual 0 0 residual
           (String (Interpolator opts)) = Inr affined \<longrightarrow>
         snd (affineStage e shrunk residual opts) = Inr affined) \<and>
      (\<forall>s.
         vips_affine_interpolator e shrunk residual 0 0 residual
           (String (Interpolator opts)) = Inl s \<longrightarrow>
         andThen (affineStage e shrunk residual opts) k =
           ([AffineInterpolator shrunk residual 0 0 residual (String (Interpolator opts))],
            Inl (resizeError s))))"
  by (auto simp: affineStage_def Let_def andThen_def split: sum.splits)

lemma String_names:
  "String BICUBIC = ''bicubic''" "String BILINEAR = ''bilinear''" "String NOHALO = ''nohalo''"
  by (simp_all add: String_def interpolations_def BICUBIC_def BILINEAR_def NOHALO_def)

theorem affine_stage_witness:
  "affineStage (sizeEngine 100 100) \<lparr>Xsize = 100, Ysize = 100\<rparr> 0 (request 400 400 False False) =
     ([Copy0 \<lparr>Xsize = 100, Ysize = 100\<rparr>], Inr \<lparr>Xsize = 100, Ysize = 100\<rparr>) \<and>
   (2::real) \<noteq> 0 \<and>
   affineStage (sizeEngine 100 100) \<lparr>Xsize = 100, Ysize = 100\<rparr> 2 (request 200 200 False True) =
     ([AffineInterpolator \<lparr>Xsize = 100, Ysize = 100\<rparr> 2 0 0 2 ''bicubic''],
      Inr \<lparr>Xsize = 200, Ysize = 200\<rparr>) \<and>
   andThen
     (affineStage
        ((sizeEngine 100 100)\<lparr>vips_affine_interpolator :=
            (\<lambda>im a b c d interpolator. Inl ''affine: parameters out of range'')\<rparr>)
        \<lparr>Xsize = 100, Ysize = 100\<rparr> 2 (request 200 200 False True))
     (\<lambda>affined. placementStage (sizeEngine 100 100) affined (request 200 200 False True)) =
     ([AffineInterpolator \<lparr>Xsize = 100, Ysize = 100\<rparr> 2 0 0 2 ''bicubic''],
      Inl (New ''affine: parameters out of range''))"
proof -
  let ?im = "\<lparr>Xsize = 100, Ysize = 100\<rparr>"
  let ?bad = "(sizeEngine 100 100)\<lparr>vips_affine_interpolator :=
            (\<lambda>im a b c d interpolator. Inl ''affine: parameters out of range'')\<rparr>"
  have i: "String (Interpolator (request 200 200 False True)) = ''bicubic''"
    by (simp add: request_def String_names)
  have ok: "vips_affine_interpolator (sizeEngine 100 100) ?im 2 0 0 2 ''bicubic'' =
      Inr \<lparr>Xsize = 200, Ysize = 200\<rparr>"
    by (simp add: sizeEngine_def)
  have bad: "vips_affine_interpolator ?bad ?im 2 0 0 2 ''bicubic'' =
      Inl ''affine: parameters out of range''"
    by simp
  have c: "vips_copy_0 (sizeEngine 100 100) ?im = ?im"
    by (simp add: sizeEngine_def)
  have a0: "affineStage (sizeEngine 100 100) ?im 0 (request 400 400 False False) =
     ([Copy0 ?im], Inr ?im)"
    using affine_stage [where residual = 0 and e = "sizeEngine 100 100" and shrunk = ?im
        and opts = "request 400 400 False False"] c
    by simp
  have a2: "affineStage (sizeEngine 100 100) ?im 2 (request 200 200 False True) =
     ([AffineInterpolator ?im 2 0 0 2 ''bicubic''], Inr \<lparr>Xsize = 200, Ysize = 200\<rparr>)"
    using affine_stage [where residual = 2 and e = "sizeEngine 100 100" and shrunk = ?im
        and opts = "request 200 200 False True"] ok i
    by (simp add: prod_eq_iff)
  have a3: "andThen (affineStage ?bad ?im 2 (request 200 200 False True))
     (\<lambda>affined. placementStage (sizeEngine 100 100) affined (request 200 200 False True)) =
     ([AffineInterpolator ?im 2 0 0 2 ''bicubic''], Inl (New ''affine: parameters out of range''))"
    using affine_stage [where residual = 2 and e = ?bad and shrunk = ?im
        and opts = "request 200 200 False True"
        and k = "\<lambda>affined. placementStage (sizeEngine 100 100) affined
                   (request 200 200 False True)"] bad i
    by (simp add: resizeError_def)
  show ?thesis using a0 a2 a3 by simp
qed


section \<open>The placement stage\<close>

lemma placementStage_copy:
  assumes "Xsize affined = Width opts" and "Ysize affined = Height opts"
  shows "placementStage e affined opts = ([Copy0 affined], Inr (opts, vips_copy_0 e affined))"
  using assms by (simp add: placementStage_def Let_def)

lemma placementStage_crop:
  assumes "Xsize affined \<noteq> Width opts \<or> Ysize affined \<noteq> Height opts" and "Crop opts"
  shows "fst (placementStage e affined opts) =
           (case cropWindow (Xsize affined) (Ysize affined) (Width opts) (Height opts)
                   (Gravity opts) of
              (left, top0, width, height) \<Rightarrow> [ExtractArea0 affined left top0 width height])"
  using assms
  by (auto simp: placementStage_def cropWindow_def Let_def split: prod.splits sum.splits)

lemma placementStage_embed:
  assumes "Xsize affined \<noteq> Width opts \<or> Ysize affined \<noteq> Height opts" and "\<not> Crop opts"
  shows "fst (placementStage e affined opts) =
           [EmbedExtend affined (quo (Width opts - Xsize affined) 2)
              (quo (Height opts - Ysize affined) 2) (Width opts) (Height opts) (Extend opts)]"
  using assms
  by (auto simp: placementStage_def Let_def split: prod.splits sum.splits)

text \<open>
  Claim C8. The placement stage makes exactly one collaborator call. It is the exact copy
  if and only if the affined image has the width and height of the plan (the options as
  the planner and the guard left them); otherwise it is the extraction when cropping and
  the embedding when not. The requested size as the caller gave it is not an argument of
  the stage.
\<close>

theorem placement_choice:
  "length (fst (placementStage e affined opts)) = 1 \<and>
   (fst (placementStage e affined opts) = [Copy0 affined] \<longleftrightarrow>
      Xsize affined = Width opts \<and> Ysize affined = Height opts) \<and>
   ((\<exists>left top0 width height.
       fst (placementStage e affined opts) = [ExtractArea0 affined left top0 width height]) \<longleftrightarrow>
      (Xsize affined \<noteq> Width opts \<or> Ysize affined \<noteq> Height opts) \<and> Crop opts) \<and>
   ((\<exists>left top0 width height extend.
       fst (placementStage e affined opts) =
         [EmbedExtend affined left top0 width height extend]) \<longleftrightarrow>
      (Xsize affined \<noteq> Width opts \<or> Ysize affined \<noteq> Height opts) \<and> \<not> Crop opts)"
proof -
  consider (copy) "Xsize affined = Width opts" "Ysize affined = Height opts"
    | (crop) "Xsize affined \<noteq> Width opts \<or> Ysize affined \<noteq> Height opts" "Crop opts"
    | (embed) "Xsize affined \<noteq> Width opts \<or> Ysize affined \<noteq> Height opts" "\<not> Crop opts"
    by blast
  then show ?thesis
  proof cases
    case copy
    then show ?thesis by (simp add: placementStage_copy)
  next
    case crop
    then show ?thesis
      using placementStage_crop [OF crop, of e]
      by (auto split: prod.splits)
  next
    case embed
    then show ?thesis
      using placementStage_embed [OF embed, of e]
      by auto
  qed
qed


theorem placement_choice_witness:
  "fst (placementStage (sizeEngine 100 100) \<lparr>Xsize = 100, Ysize = 100\<rparr>
          (request 100 100 False False)) = [Copy0 \<lparr>Xsize = 100, Ysize = 100\<rparr>] \<and>
   Xsize \<lparr>Xsize = 500, Ysize = 400\<rparr> \<noteq> Width (request 400 400 True False) \<and>
   Crop (request 400 400 True False) \<and>
   (\<exists>left top0 width height.
      fst (placementStage (sizeEngine 100 100) \<lparr>Xsize = 500, Ysize = 400\<rparr>
             (request 400 400 True False)) =
        [ExtractArea0 \<lparr>Xsize = 500, Ysize = 400\<rparr> left top0 width height]) \<and>
   Ysize \<lparr>Xsize = 400, Ysize = 300\<rparr> \<noteq> Height (request 400 400 False False) \<and>
   \<not> Crop (request 400 400 False False) \<and>
   (\<exists>left top0 width height extend.
      fst (placementStage (sizeEngine 100 100) \<lparr>Xsize = 400, Ysize = 300\<rparr>
             (request 400 400 False False)) =
        [EmbedExtend \<lparr>Xsize = 400, Ysize = 300\<rparr> left top0 width height extend])"
  using placement_choice [of "sizeEngine 100 100" "\<lparr>Xsize = 100, Ysize = 100\<rparr>"
          "request 100 100 False False"]
        placement_choice [of "sizeEngine 100 100" "\<lparr>Xsize = 500, Ysize = 400\<rparr>"
          "request 400 400 True False"]
        placement_choice [of "sizeEngine 100 100" "\<lparr>Xsize = 400, Ysize = 300\<rparr>"
          "request 400 400 False False"]
  by (simp add: request_def)

section \<open>Crop offsets\<close>






lemma resize_crop_outside:
  "Resize (sizeEngine 100 50) [0x89, 0x50] (request 0 100 True True) =
     ([],
      [PngloadBufferRand [0x89, 0x50], Copy0 \<lparr>Xsize = 100, Ysize = 50\<rparr>,
       Copy0 \<lparr>Xsize = 100, Ysize = 50\<rparr>,
       AffineInterpolator \<lparr>Xsize = 100, Ysize = 50\<rparr> 1 0 0 1 ''bicubic'',
       ExtractArea0 \<lparr>Xsize = 100, Ysize = 50\<rparr> 0 (- 24) 100 50],
      Inl (New ''extract_area: bad extract area''))"
  by (simp add: Resize_def Read_def ReadAll_def sniff_def MARKER_JPEG_def MARKER_PNG_def
      planScale_def planGuarded_def planFactor_def integralSplit_def enlargeGuard_def
      chooseShrinkOnLoad_def loadStage_def shrinkStage_def affineStage_def placementStage_def
      sharpCalcCrop_def quo_def andThen_def request_def sizeEngine_def String_names
      resizeError_def CENTRE_def NORTH_def EAST_def SOUTH_def WEST_def Let_def)


section \<open>Format detection\<close>

lemma sniff_pair:
  "sniff [x, y] =
     (if [x, y] = MARKER_JPEG then Inr JPEG
      else if [x, y] = MARKER_PNG then Inr PNG
      else Inl (New ''unknown image format''))"
  by (simp add: sniff_def MARKER_JPEG_def MARKER_PNG_def)

lemma header_cases:
  assumes "reader \<noteq> []"
  obtains x y where "take 2 (reader @ [0]) = [x, y]"
    and "take 2 reader @ drop (length (take 2 reader)) (replicate 2 0) = [x, y]"
proof (cases reader)
  case Nil
  with assms show ?thesis by simp
next
  case (Cons x xs)
  show ?thesis
  proof (cases xs)
    case Nil
    with Cons that [of x 0] show ?thesis by simp
  next
    case (Cons y ys)
    with \<open>reader = x # xs\<close> that [of x y] show ?thesis by simp
  qed
qed

lemma Resize_empty: "Resize e [] opts = ([], [], Inl EOF)"
  by (simp add: Resize_def Read_def)

lemma Resize_unknown:
  assumes "reader \<noteq> []"
    and "take 2 (reader @ [0]) \<noteq> MARKER_JPEG" and "take 2 (reader @ [0]) \<noteq> MARKER_PNG"
  shows "Resize e reader opts = (drop 2 reader, [], Inl (New ''unknown image format''))"
proof -
  obtain x y where xy: "take 2 (reader @ [0]) = [x, y]"
    and buf: "take 2 reader @ drop (length (take 2 reader)) (replicate 2 0) = [x, y]"
    using header_cases [OF assms(1)] by blast
  have "sniff [x, y] = Inl (New ''unknown image format'')"
    using assms(2,3) xy by (simp add: sniff_pair)
  then show ?thesis
    using assms(1) buf by (simp add: Resize_def Read_def)
qed

lemma Resize_jpeg:
  assumes "take 2 reader = MARKER_JPEG"
  shows "\<exists>cs r. Resize e reader opts = ([], JpegloadBufferRand reader # cs, r)"
proof -
  obtain rest where r: "reader = 0xff # 0xd8 # rest"
    using assms by (cases reader; cases "tl reader") (auto simp: MARKER_JPEG_def)
  show ?thesis
    by (simp add: r Resize_def Read_def ReadAll_def sniff_pair MARKER_JPEG_def
        Let_def split: prod.splits)
qed

lemma Resize_png:
  assumes "take 2 reader = MARKER_PNG"
  shows "\<exists>cs r. Resize e reader opts = ([], PngloadBufferRand reader # cs, r)"
proof -
  obtain rest where r: "reader = 0x89 # 0x50 # rest"
    using assms by (cases reader; cases "tl reader") (auto simp: MARKER_PNG_def)
  show ?thesis
    by (simp add: r Resize_def Read_def ReadAll_def sniff_pair MARKER_JPEG_def MARKER_PNG_def
        Let_def split: prod.splits)
qed

text \<open>
  Claim C9, as amended. \<^verbatim>\<open>Resize\<close> decides on the two bytes of its first read, a missing
  second byte reading as 0. An empty stream fails at once with the reader's \<^verbatim>\<open>io.EOF\<close>.
  A non-empty stream whose two bytes are neither \<open>ff d8\<close> nor \<open>89 50\<close> fails at once with
  ``unknown image format'': no collaborator is called and the stream beyond the first two
  bytes is left unread. A stream that starts with \<open>ff d8\<close> is read in full and handed to
  the JPEG decoder, one that starts with \<open>89 50\<close> to the PNG decoder.
\<close>

theorem format_detection:
  "(reader = [] \<longrightarrow> Resize e reader opts = ([], [], Inl EOF)) \<and>
   (reader \<noteq> [] \<and> take 2 (reader @ [0]) \<noteq> MARKER_JPEG \<and>
    take 2 (reader @ [0]) \<noteq> MARKER_PNG \<longrightarrow>
      Resize e reader opts = (drop 2 reader, [], Inl (New ''unknown image format''))) \<and>
   (take 2 reader = MARKER_JPEG \<longrightarrow>
      (\<exists>cs r. Resize e reader opts = ([], JpegloadBufferRand reader # cs, r))) \<and>
   (take 2 reader = MARKER_PNG \<longrightarrow>
      (\<exists>cs r. Resize e reader opts = ([], PngloadBufferRand reader # cs, r)))"
  using Resize_empty [of e opts] Resize_unknown [of reader e opts]
    Resize_jpeg [of reader e opts] Resize_png [of reader e opts]
  by blast

theorem format_detection_witness:
  "Resize (sizeEngine 100 100) [] (request 0 0 False False) = ([], [], Inl EOF) \<and>
   Resize (sizeEngine 100 100) [0x00, 0x01, 0x02] (request 0 0 False False) =
     ([0x02], [], Inl (New ''unknown image format'')) \<and>
   Resize (sizeEngine 100 100) [0xff] (request 0 0 False False) =
     ([], [], Inl (New ''unknown image format'')) \<and>
   (\<exists>cs r. Resize (sizeEngine 100 100) [0xff, 0xd8, 0x01] (request 0 0 False False) =
      ([], JpegloadBufferRand [0xff, 0xd8, 0x01] # cs, r)) \<and>
   (\<exists>cs r. Resize (sizeEngine 100 100) [0x89, 0x50, 0x01] (request 0 0 False False) =
      ([], PngloadBufferRand [0x89, 0x50, 0x01] # cs, r))"
  using format_detection [of "[]" "sizeEngine 100 100" "request 0 0 False False"]
    format_detection [of "[0x00, 0x01, 0x02]" "sizeEngine 100 100" "request 0 0 False False"]
    format_detection [of "[0xff]" "sizeEngine 100 100" "request 0 0 False False"]
    format_detection [of "[0xff, 0xd8, 0x01]" "sizeEngine 100 100" "request 0 0 False False"]
    format_detection [of "[0x89, 0x50, 0x01]" "sizeEngine 100 100" "request 0 0 False False"]
  by (simp add: MARKER_JPEG_def MARKER_PNG_def)

text \<open>
  Claim C9 as stated fails for the empty stream, which is shorter than two bytes: the
  error is \<^verbatim>\<open>io.EOF\<close>, not ``unknown image format''.
\<close>

theorem empty_stream_counterexample:
  "Resize (sizeEngine 100 100) [] (request 0 0 False False) \<noteq>
     ([], [], Inl (New ''unknown image format''))"
  by (simp add: Resize_def Read_def)


section \<open>The sign of the residual\<close>

lemma planFactor_pos:
  assumes "0 < inWidth" and "0 < inHeight"
  shows "0 < fst (planFactor inWidth inHeight opts)"
  using assms by (simp add: planFactor_def Let_def min_def max_def)

lemma recalculate_residual_pos: "0 < pl_residual (recalculate p)"
proof -
  have "1 \<le> \<lfloor>max (pl_factor p) 1\<rfloor>" by (simp add: le_floor_iff)
  then have "0 < real_of_int \<lfloor>max (pl_factor p) 1\<rfloor>" by linarith
  moreover have "0 < max (pl_factor p) 1" by simp
  ultimately show ?thesis by (simp add: recalculate_def Let_def)
qed

lemma planScale_residual_pos:
  assumes "0 < inWidth" and "0 < inHeight"
    and u: "Enlarge opts \<or>
         \<not> (inWidth < Width (snd (planFactor inWidth inHeight opts)) \<or>
            inHeight < Height (snd (planFactor inWidth inHeight opts)))"
  shows "0 < pl_residual (planScale typ inWidth inHeight opts)"
proof -
  define g where "g = planGuarded inWidth inHeight opts"
  define f where "f = fst (planFactor inWidth inHeight opts)"
  have f: "0 < f" unfolding f_def using assms(1,2) by (rule planFactor_pos)
  have "pl_residual g = real_of_int (max 1 \<lfloor>f\<rfloor>) / f"
    unfolding g_def f_def using planGuarded_unguarded [OF u] by simp
  moreover have "0 < real_of_int (max 1 \<lfloor>f\<rfloor>)" by simp
  ultimately have g: "0 < pl_residual g" using f by simp
  show ?thesis
  proof (cases "1 < pl_shrinkOnLoad (chooseShrinkOnLoad typ g)")
    case True
    then show ?thesis
      unfolding g_def by (simp add: planScale_def Let_def recalculate_residual_pos)
  next
    case False
    then have "chooseShrinkOnLoad typ g = g"
      using chooseShrinkOnLoad_none [of g "typ"] planGuarded_shrinkOnLoad [of inWidth inHeight opts]
      unfolding g_def by simp
    with False g show ?thesis
      unfolding g_def by (simp add: planScale_def Let_def)
  qed
qed

lemma shrinkStage_recomputed:
  assumes "1 < shrink"
    and "vips_shrink_0 e shrunkOnLoad (real_of_int shrink) (real_of_int shrink) = Inr shrunk"
  shows "snd (shrinkStage e shrunkOnLoad shrink residual opts) =
           Inr (if Crop opts
                then max (real_of_int (Width opts) / real_of_int (Xsize shrunk))
                         (real_of_int (Height opts) / real_of_int (Ysize shrunk))
                else min (real_of_int (Width opts) / real_of_int (Xsize shrunk))
                         (real_of_int (Height opts) / real_of_int (Ysize shrunk)),
                shrunk)"
  using assms by (simp add: shrinkStage_def Let_def)

lemma shrinkStage_kept:
  assumes "shrink \<le> 1"
  shows "shrinkStage e shrunkOnLoad shrink residual opts =
           ([Copy0 shrunkOnLoad], Inr (residual, vips_copy_0 e shrunkOnLoad))"
  using assms by (simp add: shrinkStage_def)

lemma planScale_unconstrained:
  assumes "Width opts = 0" and "Height opts = 0"
  shows "planScale typ inWidth inHeight opts =
           \<lparr>pl_factor = 1, pl_shrink = 1, pl_residual = 1, pl_shrinkOnLoad = 1,
            pl_opts = opts\<lparr>Width := inWidth, Height := inHeight\<rparr>\<rparr>"
  using assms
  by (simp add: planScale_def planGuarded_def planFactor_def integralSplit_def
      enlargeGuard_def chooseShrinkOnLoad_def Let_def)

lemma unconstrained_stages:
  "andThen (loadStage e buf inp 1)
     (\<lambda>shrunkOnLoad. andThen (shrinkStage e shrunkOnLoad 1 1 opts)
        (\<lambda>(residual, shrunk). andThen (affineStage e shrunk residual opts) k)) =
   (case andThen (affineStage e (vips_copy_0 e (vips_copy_0 e inp)) 1 opts) k of
      (cs, r) \<Rightarrow> (Copy0 inp # Copy0 (vips_copy_0 e inp) # cs, r))"
  by (simp add: loadStage_def shrinkStage_def andThen_def split: prod.splits sum.splits)

lemma affineStage_scale_one:
  "\<exists>cs r. andThen (affineStage e shrunk 1 opts) k =
     (AffineInterpolator shrunk 1 0 0 1 (String (Interpolator opts)) # cs, r)"
  by (auto simp: affineStage_def andThen_def Let_def split: prod.splits sum.splits)


lemma Resize_unconstrained_jpeg:
  assumes "Width opts = 0" and "Height opts = 0" and "take 2 reader = MARKER_JPEG"
  shows "\<exists>inp cs r. Resize e reader opts =
           ([], JpegloadBufferRand reader # Copy0 inp # Copy0 (vips_copy_0 e inp) #
                AffineInterpolator (vips_copy_0 e (vips_copy_0 e inp)) 1 0 0 1
                  (String (Interpolator opts)) # cs, r)"
proof -
  obtain rest where r: "reader = 0xff # 0xd8 # rest"
    using assms(3) by (cases reader; cases "tl reader") (auto simp: MARKER_JPEG_def)
  define o1 where "o1 = (if Quality opts = 0 then opts\<lparr>Quality := 100\<rparr> else opts)"
  have o1: "Width o1 = 0" "Height o1 = 0" "Interpolator o1 = Interpolator opts"
    using assms(1,2) by (simp_all add: o1_def)
  define inp where "inp = vips_jpegload_buffer_rand e reader"
  define o2 where "o2 = o1\<lparr>Width := Xsize inp, Height := Ysize inp\<rparr>"
  have o2: "Interpolator o2 = Interpolator opts" by (simp add: o2_def o1)
  define k where "k = (\<lambda>affined. andThen (placementStage e affined o2)
                         (\<lambda>(opts, canvased). saveStage e canvased opts))"
  obtain cs res where a: "andThen (affineStage e (vips_copy_0 e (vips_copy_0 e inp)) 1 o2) k =
      (AffineInterpolator (vips_copy_0 e (vips_copy_0 e inp)) 1 0 0 1
         (String (Interpolator opts)) # cs, res)"
    using affineStage_scale_one [of e "vips_copy_0 e (vips_copy_0 e inp)" o2 k] o2 by auto
  have "Resize e reader opts =
          ([], JpegloadBufferRand reader # Copy0 inp # Copy0 (vips_copy_0 e inp) #
               AffineInterpolator (vips_copy_0 e (vips_copy_0 e inp)) 1 0 0 1
                 (String (Interpolator opts)) # cs, res)"
    using a unfolding k_def o2_def inp_def r
    by (simp add: Resize_def Read_def ReadAll_def sniff_pair MARKER_JPEG_def Let_def
        o1_def [symmetric] planScale_unconstrained [OF o1(1,2)] unconstrained_stages)
  then show ?thesis by blast
qed


lemma Resize_unconstrained_png:
  assumes "Width opts = 0" and "Height opts = 0" and "take 2 reader = MARKER_PNG"
  shows "\<exists>inp cs r. Resize e reader opts =
           ([], PngloadBufferRand reader # Copy0 inp # Copy0 (vips_copy_0 e inp) #
                AffineInterpolator (vips_copy_0 e (vips_copy_0 e inp)) 1 0 0 1
                  (String (Interpolator opts)) # cs, r)"
proof -
  obtain rest where r: "reader = 0x89 # 0x50 # rest"
    using assms(3) by (cases reader; cases "tl reader") (auto simp: MARKER_PNG_def)
  define o1 where "o1 = (if Quality opts = 0 then opts\<lparr>Quality := 100\<rparr> else opts)"
  have o1: "Width o1 = 0" "Height o1 = 0" "Interpolator o1 = Interpolator opts"
    using assms(1,2) by (simp_all add: o1_def)
  define inp where "inp = vips_pngload_buffer_rand e reader"
  define o2 where "o2 = o1\<lparr>Width := Xsize inp, Height := Ysize inp\<rparr>"
  have o2: "Interpolator o2 = Interpolator opts" by (simp add: o2_def o1)
  define k where "k = (\<lambda>affined. andThen (placementStage e affined o2)
                         (\<lambda>(opts, canvased). saveStage e canvased opts))"
  obtain cs res where a: "andThen (affineStage e (vips_copy_0 e (vips_copy_0 e inp)) 1 o2) k =
      (AffineInterpolator (vips_copy_0 e (vips_copy_0 e inp)) 1 0 0 1
         (String (Interpolator opts)) # cs, res)"
    using affineStage_scale_one [of e "vips_copy_0 e (vips_copy_0 e inp)" o2 k] o2 by auto
  have "Resize e reader opts =
          ([], PngloadBufferRand reader # Copy0 inp # Copy0 (vips_copy_0 e inp) #
               AffineInterpolator (vips_copy_0 e (vips_copy_0 e inp)) 1 0 0 1
                 (String (Interpolator opts)) # cs, res)"
    using a unfolding k_def o2_def inp_def r
    by (simp add: Resize_def Read_def ReadAll_def sniff_pair MARKER_JPEG_def MARKER_PNG_def
        Let_def o1_def [symmetric] planScale_unconstrained [OF o1(1,2)] unconstrained_stages)
  then show ?thesis by blast
qed

text \<open>
  Claim C10, as amended. Only the non-enlargement guard assigns 0 to the residual. When
  the guard does not fire and the decoded raster has positive size, the residual with
  which the decoder is reached is strictly positive. The integral shrink stage keeps it
  when \<open>shrink \<le> 1\<close>; when \<open>shrink > 1\<close> it recomputes it from the planned output size,
  and the result is strictly positive if both planned dimensions are positive, or one of
  them in crop mode, the shrunk raster having positive size. For a request with width 0
  and height 0 the residual is 1, and \<^verbatim>\<open>Resize\<close> on a JPEG or PNG stream calls the decoder,
  copies twice and then invokes the resampler with scale 1.
\<close>

theorem residual_positive_unless_guarded:
  "(0 < inWidth \<and> 0 < inHeight \<and>
    (Enlarge opts \<or>
     \<not> (inWidth < Width (snd (planFactor inWidth inHeight opts)) \<or>
        inHeight < Height (snd (planFactor inWidth inHeight opts)))) \<longrightarrow>
      0 < pl_residual (planScale ty inWidth inHeight opts)) \<and>
   (shrink \<le> 1 \<longrightarrow>
      snd (shrinkStage e shrunkOnLoad shrink residual popts) =
        Inr (residual, vips_copy_0 e shrunkOnLoad)) \<and>
   (1 < shrink \<and>
    vips_shrink_0 e shrunkOnLoad (real_of_int shrink) (real_of_int shrink) = Inr shrunk \<and>
    0 < Xsize shrunk \<and> 0 < Ysize shrunk \<and>
    (0 < Width popts \<and> 0 < Height popts \<or>
     Crop popts \<and> (0 < Width popts \<or> 0 < Height popts)) \<longrightarrow>
      (\<exists>r. snd (shrinkStage e shrunkOnLoad shrink residual popts) = Inr (r, shrunk) \<and> 0 < r)) \<and>
   (Width opts = 0 \<and> Height opts = 0 \<longrightarrow>
      pl_residual (planScale ty inWidth inHeight opts) = 1 \<and>
      (take 2 reader = MARKER_JPEG \<or> take 2 reader = MARKER_PNG \<longrightarrow>
         (\<exists>load inp cs r. Resize e reader opts =
            ([], load # Copy0 inp # Copy0 (vips_copy_0 e inp) #
                 AffineInterpolator (vips_copy_0 e (vips_copy_0 e inp)) 1 0 0 1
                   (String (Interpolator opts)) # cs, r))))"
proof -
  have recomputed:
    "\<exists>r. snd (shrinkStage e shrunkOnLoad shrink residual popts) = Inr (r, shrunk) \<and> 0 < r"
    if s: "1 < shrink"
      and v: "vips_shrink_0 e shrunkOnLoad (real_of_int shrink) (real_of_int shrink) = Inr shrunk"
      and x: "0 < Xsize shrunk" and y: "0 < Ysize shrunk"
      and d: "0 < Width popts \<and> 0 < Height popts \<or>
              Crop popts \<and> (0 < Width popts \<or> 0 < Height popts)"
  proof -
    let ?rx = "real_of_int (Width popts) / real_of_int (Xsize shrunk)"
    let ?ry = "real_of_int (Height popts) / real_of_int (Ysize shrunk)"
    have rx: "0 < Width popts \<Longrightarrow> 0 < ?rx" using x by simp
    have ry: "0 < Height popts \<Longrightarrow> 0 < ?ry" using y by simp
    have "0 < (if Crop popts then max ?rx ?ry else min ?rx ?ry)"
      using d rx ry by (auto simp: less_max_iff_disj)
    then show ?thesis
      using shrinkStage_recomputed [OF s v, of residual popts] by simp
  qed
  have unconstrained: "\<exists>load inp cs r. Resize e reader opts =
            ([], load # Copy0 inp # Copy0 (vips_copy_0 e inp) #
                 AffineInterpolator (vips_copy_0 e (vips_copy_0 e inp)) 1 0 0 1
                   (String (Interpolator opts)) # cs, r)"
    if "Width opts = 0" "Height opts = 0"
      "take 2 reader = MARKER_JPEG \<or> take 2 reader = MARKER_PNG"
    using that Resize_unconstrained_jpeg [of opts reader e]
      Resize_unconstrained_png [of opts reader e]
    by blast
  show ?thesis
    using planScale_residual_pos [of inWidth inHeight opts ty]
      shrinkStage_kept [of shrink e shrunkOnLoad residual popts]
      recomputed unconstrained
      planScale_unconstrained [of opts ty inWidth inHeight]
    by simp
qed


lemma planGuarded_thin:
  "planGuarded 5 2 (request 2 0 False True) =
     \<lparr>pl_factor = 5 / 2, pl_shrink = 2, pl_residual = 4 / 5, pl_shrinkOnLoad = 1,
      pl_opts = request 2 0 False True\<rparr>"
  by (simp add: planGuarded_def planFactor_def integralSplit_def enlargeGuard_def
      request_def Let_def)

lemma planScale_thin:
  "planScale PNG 5 2 (request 2 0 False True) =
     \<lparr>pl_factor = 5 / 2, pl_shrink = 2, pl_residual = 4 / 5, pl_shrinkOnLoad = 1,
      pl_opts = request 2 0 False True\<rparr>"
  by (simp add: planScale_def planGuarded_thin chooseShrinkOnLoad_def Let_def)

theorem residual_positive_unless_guarded_witness:
  "0 < pl_residual (planScale JPEG 4000 3000 (request 400 300 True False)) \<and>
   snd (shrinkStage (sizeEngine 100 100) \<lparr>Xsize = 100, Ysize = 100\<rparr> 1 2
          (request 200 200 False True)) = Inr (2, \<lparr>Xsize = 100, Ysize = 100\<rparr>) \<and>
   (\<exists>r. snd (shrinkStage (sizeEngine 4000 3000) \<lparr>Xsize = 4000, Ysize = 3000\<rparr> 10 1
               (request 400 300 True False)) = Inr (r, \<lparr>Xsize = 400, Ysize = 300\<rparr>) \<and>
        0 < r) \<and>
   pl_residual (planScale JPEG 800 600 (request 0 0 False False)) = 1 \<and>
   (\<exists>load inp cs r.
      Resize (sizeEngine 800 600) [0xff, 0xd8] (request 0 0 False False) =
        ([], load # Copy0 inp # Copy0 (vips_copy_0 (sizeEngine 800 600) inp) #
             AffineInterpolator
               (vips_copy_0 (sizeEngine 800 600) (vips_copy_0 (sizeEngine 800 600) inp))
               1 0 0 1 ''bicubic'' # cs, r))"
proof -
  have u: "\<not> (4000 < Width (snd (planFactor 4000 3000 (request 400 300 True False))) \<or>
      3000 < Height (snd (planFactor 4000 3000 (request 400 300 True False))))"
    by (simp add: planFactor_def request_def Let_def)
  have v: "vips_shrink_0 (sizeEngine 4000 3000) \<lparr>Xsize = 4000, Ysize = 3000\<rparr>
             (real_of_int 10) (real_of_int 10) = Inr \<lparr>Xsize = 400, Ysize = 300\<rparr>"
    by (simp add: sizeEngine_def)
  have d: "0 < Width (request 400 300 True False) \<and> 0 < Height (request 400 300 True False)"
    by (simp add: request_def)
  have z: "Width (request 0 0 False False) = 0 \<and> Height (request 0 0 False False) = 0"
    by (simp add: request_def)
  have m: "take 2 [0xff, 0xd8] = MARKER_JPEG"
    by (simp add: MARKER_JPEG_def)
  have i: "String (Interpolator (request 0 0 False False)) = ''bicubic''"
    by (simp add: request_def String_names)
  have c1: "0 < pl_residual (planScale JPEG 4000 3000 (request 400 300 True False))"
    using residual_positive_unless_guarded [where inWidth = 4000 and inHeight = 3000
        and opts = "request 400 300 True False" and ty = JPEG] u
    by simp
  have c2: "snd (shrinkStage (sizeEngine 100 100) \<lparr>Xsize = 100, Ysize = 100\<rparr> 1 2
          (request 200 200 False True)) = Inr (2, \<lparr>Xsize = 100, Ysize = 100\<rparr>)"
    using residual_positive_unless_guarded [where shrink = 1 and e = "sizeEngine 100 100"
        and shrunkOnLoad = "\<lparr>Xsize = 100, Ysize = 100\<rparr>" and residual = 2
        and popts = "request 200 200 False True"]
    by (simp add: sizeEngine_def)
  have c3: "\<exists>r. snd (shrinkStage (sizeEngine 4000 3000) \<lparr>Xsize = 4000, Ysize = 3000\<rparr> 10 1
               (request 400 300 True False)) = Inr (r, \<lparr>Xsize = 400, Ysize = 300\<rparr>) \<and>
        0 < r"
    using residual_positive_unless_guarded [where shrink = 10 and e = "sizeEngine 4000 3000"
        and shrunkOnLoad = "\<lparr>Xsize = 4000, Ysize = 3000\<rparr>" and residual = 1
        and popts = "request 400 300 True False"
        and shrunk = "\<lparr>Xsize = 400, Ysize = 300\<rparr>"] v d
    by simp
  have c4: "pl_residual (planScale JPEG 800 600 (request 0 0 False False)) = 1"
    using residual_positive_unless_guarded [where opts = "request 0 0 False False"
        and ty = JPEG and inWidth = 800 and inHeight = 600] z
    by simp
  have c5: "\<exists>load inp cs r.
      Resize (sizeEngine 800 600) [0xff, 0xd8] (request 0 0 False False) =
        ([], load # Copy0 inp # Copy0 (vips_copy_0 (sizeEngine 800 600) inp) #
             AffineInterpolator
               (vips_copy_0 (sizeEngine 800 600) (vips_copy_0 (sizeEngine 800 600) inp))
               1 0 0 1 ''bicubic'' # cs, r)"
    using residual_positive_unless_guarded [where opts = "request 0 0 False False"
        and reader = "[0xff, 0xd8]" and e = "sizeEngine 800 600"] z m i
    by simp
  show ?thesis using c1 c2 c3 c4 c5 by blast
qed

text \<open>
  Claim C10 as stated fails on the recomputation after the integral shrink: for a
  \<open>5 \<times> 2\<close> PNG and a request of width 2 in fit mode, with enlargement allowed so that the
  guard cannot fire, the planned height is 0 and the recomputed residual is
  \<open>min (2 / 2) (0 / 1) = 0\<close>. \<open>resize_thin_skips_affine\<close> shows the run: the affine stage
  copies.
\<close>

theorem residual_zero_without_guard_counterexample:
  "Enlarge (request 2 0 False True) \<and>
   snd (shrinkStage (sizeEngine 5 2) \<lparr>Xsize = 5, Ysize = 2\<rparr>
          (pl_shrink (planScale PNG 5 2 (request 2 0 False True)))
          (pl_residual (planScale PNG 5 2 (request 2 0 False True)))
          (pl_opts (planScale PNG 5 2 (request 2 0 False True)))) =
     Inr (0, \<lparr>Xsize = 2, Ysize = 1\<rparr>)"
  unfolding planScale_thin
  by (simp add: shrinkStage_def sizeEngine_def request_def Let_def)

lemma resize_thin_skips_affine:
  "Resize (sizeEngine 5 2) [0x89, 0x50] (request 2 0 False True) =
     ([],
      [PngloadBufferRand [0x89, 0x50], Copy0 \<lparr>Xsize = 5, Ysize = 2\<rparr>,
       Shrink0 \<lparr>Xsize = 5, Ysize = 2\<rparr> 2 2, Copy0 \<lparr>Xsize = 2, Ysize = 1\<rparr>,
       EmbedExtend \<lparr>Xsize = 2, Ysize = 1\<rparr> 0 0 2 0 0,
       Colourspace0 \<lparr>Xsize = 2, Ysize = 0\<rparr>,
       JpegsaveCustom \<lparr>Xsize = 2, Ysize = 0\<rparr> 100],
      Inr [0xff, 0xd8])"
  by (simp add: Resize_def Read_def ReadAll_def sniff_def MARKER_JPEG_def MARKER_PNG_def
      planScale_def planGuarded_def planFactor_def integralSplit_def enlargeGuard_def
      chooseShrinkOnLoad_def loadStage_def shrinkStage_def affineStage_def placementStage_def
      saveStage_def quo_def andThen_def request_def sizeEngine_def Let_def)

text \<open>
  The scenario of a \<open>100 \<times> 100\<close> PNG with a \<open>400 \<times> 400\<close> request and enlargement not
  allowed: every stage copies, and the placement stage copies although the size the
  caller requested differs from the affined size.
\<close>

lemma resize_refuses_enlargement:
  "Resize (sizeEngine 100 100) [0x89, 0x50] (request 400 400 False False) =
     ([],
      [PngloadBufferRand [0x89, 0x50], Copy0 \<lparr>Xsize = 100, Ysize = 100\<rparr>,
       Copy0 \<lparr>Xsize = 100, Ysize = 100\<rparr>, Copy0 \<lparr>Xsize = 100, Ysize = 100\<rparr>,
       Copy0 \<lparr>Xsize = 100, Ysize = 100\<rparr>, Colourspace0 \<lparr>Xsize = 100, Ysize = 100\<rparr>,
       JpegsaveCustom \<lparr>Xsize = 100, Ysize = 100\<rparr> 100],
      Inr [0xff, 0xd8])"
  by (simp add: Resize_def Read_def ReadAll_def sniff_def MARKER_JPEG_def MARKER_PNG_def
      planScale_def planGuarded_def planFactor_def integralSplit_def enlargeGuard_def
      chooseShrinkOnLoad_def loadStage_def shrinkStage_def affineStage_def placementStage_def
      saveStage_def andThen_def request_def sizeEngine_def Let_def)


end
